theory Spec2Isabelle
  imports Complex_Main "HOL-Library.AList"
begin

section \<open>JavaScript numbers\<close>

text \<open>
  A JavaScript \<^verbatim>\<open>number\<close> is modelled as a real number or \<^verbatim>\<open>NaN\<close>. Rounding, overflow and the
  infinities are not modelled; \<^verbatim>\<open>NaN\<close> is, because the remainder by zero in the tick loop
  produces it. Every comparison with \<^verbatim>\<open>NaN\<close> is false, as in JavaScript.
\<close>

datatype jsnum = NaN | Num real

fun js_add :: "jsnum \<Rightarrow> jsnum \<Rightarrow> jsnum" where
  "js_add (Num a) (Num b) = Num (a + b)"
| "js_add _ _ = NaN"

fun js_sub :: "jsnum \<Rightarrow> jsnum \<Rightarrow> jsnum" where
  "js_sub (Num a) (Num b) = Num (a - b)"
| "js_sub _ _ = NaN"

fun js_mul :: "jsnum \<Rightarrow> jsnum \<Rightarrow> jsnum" where
  "js_mul (Num a) (Num b) = Num (a * b)"
| "js_mul _ _ = NaN"

definition trunc :: "real \<Rightarrow> int" where
  "trunc r = (if 0 \<le> r then \<lfloor>r\<rfloor> else \<lceil>r\<rceil>)"

text \<open>The operator \<^verbatim>\<open>%\<close>: the remainder has the sign of the dividend; by zero it is \<^verbatim>\<open>NaN\<close>.\<close>

fun js_rem :: "jsnum \<Rightarrow> jsnum \<Rightarrow> jsnum" where
  "js_rem (Num a) (Num b) = (if b = 0 then NaN else Num (a - b * of_int (trunc (a / b))))"
| "js_rem _ _ = NaN"

text \<open>
  The operator \<^verbatim>\<open>/\<close>. JavaScript gives an infinity for a non-zero number divided by zero; the
  model has no infinity and gives \<^verbatim>\<open>NaN\<close> there. The two divisions of the modelled code never
  reach that case: the tick loop divides \<^verbatim>\<open>elapsed % duration\<close>, which is already \<^verbatim>\<open>NaN\<close> when
  the duration is zero, and the frame-rate sampler divides by a number that is at least 1000.
\<close>

fun js_div :: "jsnum \<Rightarrow> jsnum \<Rightarrow> jsnum" where
  "js_div (Num a) (Num b) = (if b = 0 then NaN else Num (a / b))"
| "js_div _ _ = NaN"

fun js_sin :: "jsnum \<Rightarrow> jsnum" where
  "js_sin (Num a) = Num (sin a)"
| "js_sin NaN = NaN"

fun js_sqrt :: "jsnum \<Rightarrow> jsnum" where
  "js_sqrt (Num a) = (if a < 0 then NaN else Num (sqrt a))"
| "js_sqrt NaN = NaN"

fun js_min :: "jsnum \<Rightarrow> jsnum \<Rightarrow> jsnum" where
  "js_min (Num a) (Num b) = Num (min a b)"
| "js_min _ _ = NaN"

fun js_gt :: "jsnum \<Rightarrow> jsnum \<Rightarrow> bool" where
  "js_gt (Num a) (Num b) = (a > b)"
| "js_gt _ _ = False"

fun js_ge :: "jsnum \<Rightarrow> jsnum \<Rightarrow> bool" where
  "js_ge (Num a) (Num b) = (a \<ge> b)"
| "js_ge _ _ = False"

fun js_le :: "jsnum \<Rightarrow> jsnum \<Rightarrow> bool" where
  "js_le (Num a) (Num b) = (a \<le> b)"
| "js_le _ _ = False"

text \<open>
  \<^verbatim>\<open>v || d\<close> on an optional number: the default is taken when the property is absent
  (\<^verbatim>\<open>undefined\<close>), zero or \<^verbatim>\<open>NaN\<close>.
\<close>

fun js_or :: "jsnum option \<Rightarrow> jsnum \<Rightarrow> jsnum" where
  "js_or None d = d"
| "js_or (Some NaN) d = d"
| "js_or (Some (Num a)) d = (if a = 0 then d else Num a)"

section \<open>Scene objects\<close>

datatype vec3 = Vector3 (vx: jsnum) (vy: jsnum) (vz: jsnum)

datatype euler = Euler (ex: jsnum) (ey: jsnum) (ez: jsnum) (eorder: string)

datatype color = Color (col_r: jsnum) (col_g: jsnum) (col_b: jsnum)

datatype sphere = Sphere (center: vec3) (radius: jsnum)

text \<open>
  The material of a mesh: the code only asks whether it is a \<^verbatim>\<open>MeshPhongMaterial\<close>, whose
  emissive colour and shininess it reads and writes. Any other material, or an array of
  materials, is \<open>OtherMaterial\<close>.
\<close>

datatype material = MeshPhongMaterial (emissive: color) (shininess: jsnum) | OtherMaterial

text \<open>
  What the code asks of the class of an object: a \<^verbatim>\<open>THREE.Mesh\<close> has a material and a
  geometry, of which only the bounding sphere (\<^verbatim>\<open>null\<close> until computed) is read.
\<close>

datatype kind = PlainObject | Mesh (material: material) (boundingSphere: "sphere option")

type_synonym mat4 = "real list"

record Object3D =
  position :: vec3
  rotation :: euler
  scale :: vec3
  visible :: bool
  castShadow :: bool
  kind :: kind
  matrixWorld :: mat4

text \<open>
  Objects are shared, mutable and referenced by identity: a reference is a number, and the
  heap maps each reference to the object's current attributes.
\<close>

type_synonym objref = nat

type_synonym heap = "objref \<Rightarrow> Object3D"

fun multiplyScalar :: "vec3 \<Rightarrow> jsnum \<Rightarrow> vec3" where
  "multiplyScalar (Vector3 a b c) s = Vector3 (js_mul a s) (js_mul b s) (js_mul c s)"

fun multiplyScalar_color :: "color \<Rightarrow> jsnum \<Rightarrow> color" where
  "multiplyScalar_color (Color r g b) s = Color (js_mul r s) (js_mul g s) (js_mul b s)"

fun add_y :: "vec3 \<Rightarrow> jsnum \<Rightarrow> vec3" where
  "add_y (Vector3 a b c) d = Vector3 a (js_add b d) c"

fun add_rotation_y :: "euler \<Rightarrow> jsnum \<Rightarrow> euler" where
  "add_rotation_y (Euler a b c ord) d = Euler a (js_add b d) c ord"

text \<open>The emissive colour of an object, when it is a mesh with a Phong material.\<close>

definition emissive_of :: "Object3D \<Rightarrow> color option" where
  "emissive_of n = (case kind n of Mesh (MeshPhongMaterial e sh) bs \<Rightarrow> Some e | _ \<Rightarrow> None)"

definition set_emissive :: "color \<Rightarrow> Object3D \<Rightarrow> Object3D" where
  "set_emissive c n = (case kind n of
       Mesh (MeshPhongMaterial e sh) bs \<Rightarrow> n\<lparr>kind := Mesh (MeshPhongMaterial c sh) bs\<rparr>
     | _ \<Rightarrow> n)"

section \<open>The animation manager\<close>

datatype AnimationType = FLOAT | ROTATE | PULSE | GLOW | BOUNCE

record AnimationConfig =
  type' :: AnimationType
  duration :: jsnum
  amplitude :: "jsnum option"
  speed :: "jsnum option"
  loop :: "bool option"
  autoStart :: "bool option"

text \<open>
  The baseline fields \<open>originalPosition\<close>, \<open>originalRotation\<close> and \<open>originalScale\<close> are
  declared optional in the source, but \<open>addAnimation\<close>, the only place that builds an
  instance, always sets them; they are plain fields here, and the guards on them in
  \<open>removeAnimation\<close> always pass. \<open>originalEmissive\<close> is really optional.
\<close>

record AnimationInstance =
  object :: objref
  config :: AnimationConfig
  startTime :: jsnum
  isActive :: bool
  originalPosition :: vec3
  originalRotation :: euler
  originalScale :: vec3
  originalEmissive :: "color option"

text \<open>
  The manager together with the heap of scene objects it mutates. \<open>animations\<close> is a
  JavaScript \<^verbatim>\<open>Map\<close>: an association list in insertion order with unique keys, where
  \<^verbatim>\<open>set\<close> on a present key keeps the key's place (\<open>AList.update\<close>).
\<close>

record AnimationManager =
  objects :: heap
  animations :: "(string \<times> AnimationInstance) list"
  isRunning :: bool

definition js_pi :: jsnum where
  "js_pi = Num pi"

definition updateFloatAnimation ::
  "objref \<Rightarrow> vec3 \<Rightarrow> AnimationConfig \<Rightarrow> jsnum \<Rightarrow> heap \<Rightarrow> heap" where
  "updateFloatAnimation obj originalPos cfg progress h =
     (let amp = js_or (amplitude cfg) (Num 1);
          offset = js_mul (js_sin (js_mul (js_mul progress js_pi) (Num 2))) amp
      in h(obj := (h obj)\<lparr>position := add_y originalPos offset\<rparr>))"

definition updateRotateAnimation ::
  "objref \<Rightarrow> euler \<Rightarrow> AnimationConfig \<Rightarrow> jsnum \<Rightarrow> heap \<Rightarrow> heap" where
  "updateRotateAnimation obj originalRot cfg elapsed h =
     (let spd = js_or (speed cfg) (Num 1)
      in h(obj := (h obj)\<lparr>rotation := add_rotation_y originalRot (js_mul elapsed spd)\<rparr>))"

definition updatePulseAnimation ::
  "objref \<Rightarrow> vec3 \<Rightarrow> AnimationConfig \<Rightarrow> jsnum \<Rightarrow> heap \<Rightarrow> heap" where
  "updatePulseAnimation obj originalSc cfg progress h =
     (let amp = js_or (amplitude cfg) (Num (2 / 10));
          sc = js_add (Num 1) (js_mul (js_sin (js_mul (js_mul progress js_pi) (Num 2))) amp)
      in h(obj := (h obj)\<lparr>scale := multiplyScalar originalSc sc\<rparr>))"

definition updateGlowAnimation ::
  "objref \<Rightarrow> color option \<Rightarrow> AnimationConfig \<Rightarrow> jsnum \<Rightarrow> heap \<Rightarrow> heap" where
  "updateGlowAnimation obj originalEm cfg progress h =
     (case (emissive_of (h obj), originalEm) of
        (Some _, Some e) \<Rightarrow>
          (let intensity =
                 js_mul (js_add (js_sin (js_mul (js_mul progress js_pi) (Num 2))) (Num 1))
                        (Num (5 / 10));
               amp = js_or (amplitude cfg) (Num (3 / 10));
               glowColor = multiplyScalar_color e (js_mul intensity amp)
           in h(obj := set_emissive glowColor (h obj)))
      | _ \<Rightarrow> h)"

definition updateBounceAnimation ::
  "objref \<Rightarrow> vec3 \<Rightarrow> AnimationConfig \<Rightarrow> jsnum \<Rightarrow> heap \<Rightarrow> heap" where
  "updateBounceAnimation obj originalPos cfg progress h =
     (let amp = js_or (amplitude cfg) (Num 2);
          bp0 = js_mul progress (Num 2);
          bp = (if js_gt bp0 (Num 1) then js_sub (Num 2) bp0 else bp0);
          height = js_mul (js_mul (js_mul (Num 4) bp) (js_sub (Num 1) bp)) amp
      in h(obj := (h obj)\<lparr>position := add_y originalPos height\<rparr>))"

definition updateAnimation :: "AnimationInstance \<Rightarrow> jsnum \<Rightarrow> jsnum \<Rightarrow> heap \<Rightarrow> heap" where
  "updateAnimation a progress elapsed h =
     (case type' (config a) of
        FLOAT \<Rightarrow> updateFloatAnimation (object a) (originalPosition a) (config a) progress h
      | ROTATE \<Rightarrow> updateRotateAnimation (object a) (originalRotation a) (config a) elapsed h
      | PULSE \<Rightarrow> updatePulseAnimation (object a) (originalScale a) (config a) progress h
      | GLOW \<Rightarrow> updateGlowAnimation (object a) (originalEmissive a) (config a) progress h
      | BOUNCE \<Rightarrow> updateBounceAnimation (object a) (originalPosition a) (config a) progress h)"

text \<open>The body of the loop of \<open>update\<close>, for one entry of the map.\<close>

definition update_entry :: "jsnum \<Rightarrow> heap \<Rightarrow> string \<times> AnimationInstance \<Rightarrow> heap" where
  "update_entry currentTime h entry =
     (let a = snd entry in
      if \<not> isActive a then h
      else
        let elapsed = js_sub currentTime (startTime a);
            progress = js_div (js_rem elapsed (duration (config a))) (duration (config a))
        in updateAnimation a progress elapsed h)"

text \<open>
  One run of \<open>update\<close>, the body of the shared tick loop; \<open>currentTime\<close> is what the clock
  returns. The call of \<^verbatim>\<open>requestAnimationFrame\<close> that ends it asks the host to run \<open>update\<close>
  again at the next frame: the next run is the host's step, and it does nothing once
  \<open>isRunning\<close> is false.
\<close>

definition update :: "jsnum \<Rightarrow> AnimationManager \<Rightarrow> AnimationManager" where
  "update currentTime m =
     (if \<not> isRunning m then m
      else m\<lparr>objects := foldl (update_entry currentTime) (objects m) (animations m)\<rparr>)"

definition start :: "jsnum \<Rightarrow> AnimationManager \<Rightarrow> AnimationManager" where
  "start currentTime m = (if isRunning m then m else update currentTime (m\<lparr>isRunning := True\<rparr>))"

definition stop :: "AnimationManager \<Rightarrow> AnimationManager" where
  "stop m = m\<lparr>isRunning := False\<rparr>"

text \<open>
  \<open>addAnimation\<close> reads the clock once for the start time (\<open>now\<close>) and, when it starts the
  loop, once more in the first run of \<open>update\<close> (\<open>now'\<close>). The stored configuration is the
  given one with \<open>loop\<close> and \<open>autoStart\<close> defaulting to true (neither is read again).
\<close>

definition addAnimation ::
  "string \<Rightarrow> objref \<Rightarrow> AnimationConfig \<Rightarrow> jsnum \<Rightarrow> jsnum \<Rightarrow> AnimationManager \<Rightarrow> AnimationManager" where
  "addAnimation id' obj cfg now now' m =
     (let n = objects m obj;
          animation = \<lparr> object = obj,
                        config = cfg\<lparr> loop := (case loop cfg of None \<Rightarrow> Some True | Some b \<Rightarrow> Some b),
                                      autoStart := (case autoStart cfg of None \<Rightarrow> Some True | Some b \<Rightarrow> Some b) \<rparr>,
                        startTime = now,
                        isActive = (autoStart cfg \<noteq> Some False),
                        originalPosition = position n,
                        originalRotation = rotation n,
                        originalScale = scale n,
                        originalEmissive = emissive_of n \<rparr>;
          m1 = m\<lparr>animations := AList.update id' animation (animations m)\<rparr>
      in if \<not> isRunning m1 \<and> isActive animation then start now' m1 else m1)"

definition restore :: "AnimationInstance \<Rightarrow> heap \<Rightarrow> heap" where
  "restore a h =
     (let n1 = (h (object a))\<lparr> position := originalPosition a,
                               rotation := originalRotation a,
                               scale := originalScale a \<rparr>;
          n2 = (case originalEmissive a of Some e \<Rightarrow> set_emissive e n1 | None \<Rightarrow> n1)
      in h(object a := n2))"

definition removeAnimation :: "string \<Rightarrow> AnimationManager \<Rightarrow> AnimationManager" where
  "removeAnimation id' m =
     (let m1 = (case map_of (animations m) id' of
                  Some a \<Rightarrow> m\<lparr> objects := restore a (objects m),
                               animations := AList.delete id' (animations m) \<rparr>
                | None \<Rightarrow> m)
      in if length (animations m1) = 0 then stop m1 else m1)"

definition playAnimation :: "string \<Rightarrow> jsnum \<Rightarrow> jsnum \<Rightarrow> AnimationManager \<Rightarrow> AnimationManager" where
  "playAnimation id' now now' m =
     (case map_of (animations m) id' of
        Some a \<Rightarrow>
          (let m1 = m\<lparr>animations := AList.update id' (a\<lparr>isActive := True, startTime := now\<rparr>) (animations m)\<rparr>
           in if \<not> isRunning m1 then start now' m1 else m1)
      | None \<Rightarrow> m)"

definition pauseAnimation :: "string \<Rightarrow> AnimationManager \<Rightarrow> AnimationManager" where
  "pauseAnimation id' m =
     (case map_of (animations m) id' of
        Some a \<Rightarrow> m\<lparr>animations := AList.update id' (a\<lparr>isActive := False\<rparr>) (animations m)\<rparr>
      | None \<Rightarrow> m)"

definition isAnimationActive :: "string \<Rightarrow> AnimationManager \<Rightarrow> bool" where
  "isAnimationActive id' m = (case map_of (animations m) id' of Some a \<Rightarrow> isActive a | None \<Rightarrow> False)"

definition hasAnimation :: "string \<Rightarrow> AnimationManager \<Rightarrow> bool" where
  "hasAnimation id' m = (map_of (animations m) id' \<noteq> None)"

definition getAnimationIds :: "AnimationManager \<Rightarrow> string list" where
  "getAnimationIds m = map fst (animations m)"

text \<open>
  The public operations of the manager and the host's frame callback, as one step function,
  to speak about sequences of calls.
\<close>

datatype operation =
    Add string objref AnimationConfig jsnum jsnum
  | Remove string
  | Play string jsnum jsnum
  | Pause string
  | Tick jsnum
  | Start jsnum
  | Stop

fun step :: "operation \<Rightarrow> AnimationManager \<Rightarrow> AnimationManager" where
  "step (Add i obj cfg now now') m = addAnimation i obj cfg now now' m"
| "step (Remove i) m = removeAnimation i m"
| "step (Play i now now') m = playAnimation i now now' m"
| "step (Pause i) m = pauseAnimation i m"
| "step (Tick now) m = update now m"
| "step (Start now) m = start now m"
| "step Stop m = stop m"

definition run :: "operation list \<Rightarrow> AnimationManager \<Rightarrow> AnimationManager" where
  "run ops m = fold step ops m"

text \<open>An operation that binds the id \<open>i\<close> to another instance, or to none.\<close>

fun rebinds :: "string \<Rightarrow> operation \<Rightarrow> bool" where
  "rebinds i (Add j obj cfg now now') = (j = i)"
| "rebinds i (Remove j) = (j = i)"
| "rebinds i _ = False"

text \<open>The baseline snapshot of an instance, with the object it belongs to.\<close>

definition baseline :: "AnimationInstance \<Rightarrow> objref \<times> vec3 \<times> euler \<times> vec3 \<times> color option" where
  "baseline a = (object a, originalPosition a, originalRotation a, originalScale a, originalEmissive a)"

definition is_phong :: "Object3D \<Rightarrow> bool" where
  "is_phong n = (emissive_of n \<noteq> None)"

definition active_count :: "AnimationManager \<Rightarrow> nat" where
  "active_count m = length (filter (\<lambda>e. isActive (snd e)) (animations m))"

text \<open>The manager as its constructor leaves it, over a given heap.\<close>

definition new_AnimationManager :: "heap \<Rightarrow> AnimationManager" where
  "new_AnimationManager h = \<lparr> objects = h, animations = [], isRunning = False \<rparr>"

subsection \<open>Example scene objects and configurations\<close>

definition example_object :: Object3D where
  "example_object =
     \<lparr> position = Vector3 (Num 0) (Num 5) (Num 0),
       rotation = Euler (Num 0) (Num 0) (Num 0) ''XYZ'',
       scale = Vector3 (Num 1) (Num 1) (Num 1),
       visible = True,
       castShadow = True,
       kind = Mesh (MeshPhongMaterial (Color (Num 1) (Num 1) (Num 1)) (Num 100)) None,
       matrixWorld = [] \<rparr>"

definition example_heap :: heap where
  "example_heap = (\<lambda>r. example_object)"

definition float_config :: AnimationConfig where
  "float_config =
     \<lparr> type' = FLOAT, duration = Num 4, amplitude = Some (Num 2), speed = None,
       loop = None, autoStart = None \<rparr>"

definition rotate_config :: "jsnum \<Rightarrow> AnimationConfig" where
  "rotate_config d =
     \<lparr> type' = ROTATE, duration = d, amplitude = None, speed = Some (Num 2),
       loop = None, autoStart = None \<rparr>"

text \<open>The invariant of the tick loop: it runs whenever some instance is active.\<close>

definition loop_inv :: "AnimationManager \<Rightarrow> bool" where
  "loop_inv m = (0 < active_count m \<longrightarrow> isRunning m)"

section \<open>The interaction system\<close>

text \<open>
  An object as the ray caster returns it: its identity and its chain of parents, the only
  part of the scene graph that \<open>isChildOf\<close> reads. The chain is a finite value, as in a
  scene graph, where no object is its own ancestor.
\<close>

datatype node = Node (ref: objref) (parent: "node option")

text \<open>
  A callback is a closure of the host; the model keeps its identity and records its calls.
  What a callback does is the host's business: it is assumed not to call back into the
  interaction system.
\<close>

datatype callback = Callback nat

text \<open>
  An entity is a JavaScript object, and the source compares entities by identity (\<^verbatim>\<open>===\<close>,
  \<^verbatim>\<open>indexOf\<close>). \<open>ident\<close> is that identity: two objects with the same name, callbacks and
  distance are still two entities, with different \<open>ident\<close>, and they are not equal.
\<close>

record InteractableObject =
  ident :: nat
  object3d :: objref
  name :: string
  description :: string
  onInteract :: callback
  onHover :: "callback option"
  onHoverEnd :: "callback option"
  interactionDistance :: jsnum

datatype intersection = Intersection (hit_object: node) (hit_distance: jsnum)

text \<open>The prompt element of the page: its text and whether it has the class \<^verbatim>\<open>visible\<close>.\<close>

record prompt =
  textContent :: string
  visible_class :: bool

text \<open>
  The state of the system. \<open>calls\<close> is the trace of the callbacks invoked so far, each with
  the value of \<open>currentHoveredObject\<close> at the moment of the call. Equality of entities is
  the source's \<^verbatim>\<open>===\<close>: equal entities have the same \<open>ident\<close>.
\<close>

record InteractionSystem =
  interactableObjects :: "InteractableObject list"
  currentHoveredObject :: "InteractableObject option"
  interactionPrompt :: "prompt option"
  calls :: "(callback \<times> InteractableObject option) list"

definition invoke :: "callback \<Rightarrow> InteractionSystem \<Rightarrow> InteractionSystem" where
  "invoke f s = s\<lparr>calls := calls s @ [(f, currentHoveredObject s)]\<rparr>"

fun walk_up :: "node option \<Rightarrow> objref \<Rightarrow> bool" where
  "walk_up None p = False"
| "walk_up (Some (Node r up)) p = (if r = p then True else walk_up up p)"

definition isChildOf :: "node \<Rightarrow> objref \<Rightarrow> bool" where
  "isChildOf child p = (if ref child = p then True else walk_up (parent child) p)"

text \<open>
  \<open>getIntersectedInteractableObject\<close>. The list of intersections is what
  \<^verbatim>\<open>raycaster.intersectObjects\<close> returns, nearest first; the ray caster belongs to the
  rendering library and its result is a parameter.
\<close>

fun getIntersectedInteractableObject ::
  "intersection list \<Rightarrow> InteractableObject list \<Rightarrow> InteractableObject option" where
  "getIntersectedInteractableObject [] objs = None"
| "getIntersectedInteractableObject (i # rest) objs =
     (case find (\<lambda>obj. isChildOf (hit_object i) (object3d obj)) objs of
        Some obj \<Rightarrow>
          if js_le (hit_distance i) (interactionDistance obj) then Some obj
          else getIntersectedInteractableObject rest objs
      | None \<Rightarrow> getIntersectedInteractableObject rest objs)"

text \<open>The fixed text put before the description: the UTF-8 bytes of the source's literal.\<close>

definition prompt_prefix :: string where
  "prompt_prefix =
     [CHR 0xE7, CHR 0x82, CHR 0xB9, CHR 0xE5, CHR 0x87, CHR 0xBB, CHR 0xE4, CHR 0xBA, CHR 0xA4,
      CHR 0xE4, CHR 0xBA, CHR 0x92, CHR 0x3A, CHR 0x20]"

definition updateInteractionPrompt :: "InteractionSystem \<Rightarrow> InteractionSystem" where
  "updateInteractionPrompt s =
     (case interactionPrompt s of
        None \<Rightarrow> s
      | Some p \<Rightarrow>
          (case currentHoveredObject s of
             Some obj \<Rightarrow>
               s\<lparr>interactionPrompt :=
                    Some (p\<lparr>textContent := prompt_prefix @ description obj, visible_class := True\<rparr>)\<rparr>
           | None \<Rightarrow> s\<lparr>interactionPrompt := Some (p\<lparr>visible_class := False\<rparr>)\<rparr>))"

text \<open>
  The two event handlers. \<open>locked\<close> says whether the pointer is locked on the canvas (the
  handlers return at once when it is not); \<open>intersects\<close> is the result of the ray cast from
  the centre of the view.
\<close>

definition onCanvasClick :: "bool \<Rightarrow> intersection list \<Rightarrow> InteractionSystem \<Rightarrow> InteractionSystem" where
  "onCanvasClick locked intersects s =
     (if \<not> locked then s
      else case getIntersectedInteractableObject intersects (interactableObjects s) of
             Some obj \<Rightarrow> invoke (onInteract obj) s
           | None \<Rightarrow> s)"

definition onCanvasMouseMove ::
  "bool \<Rightarrow> intersection list \<Rightarrow> InteractionSystem \<Rightarrow> InteractionSystem" where
  "onCanvasMouseMove locked intersects s =
     (if \<not> locked then s
      else
        let intersectedObject = getIntersectedInteractableObject intersects (interactableObjects s)
        in if intersectedObject \<noteq> currentHoveredObject s then
             let s1 = (case currentHoveredObject s of
                         Some prev \<Rightarrow> (case onHoverEnd prev of Some f \<Rightarrow> invoke f s | None \<Rightarrow> s)
                       | None \<Rightarrow> s);
                 s2 = s1\<lparr>currentHoveredObject := intersectedObject\<rparr>;
                 s3 = (case currentHoveredObject s2 of
                         Some new \<Rightarrow> (case onHover new of Some f \<Rightarrow> invoke f s2 | None \<Rightarrow> s2)
                       | None \<Rightarrow> s2)
             in updateInteractionPrompt s3
           else s)"

text \<open>
  \<open>addInteractableObject\<close> also tags the object's \<^verbatim>\<open>userData\<close> for debugging, which nothing
  reads; the tag is not modelled.
\<close>

definition addInteractableObject :: "InteractableObject \<Rightarrow> InteractionSystem \<Rightarrow> InteractionSystem" where
  "addInteractableObject obj s = s\<lparr>interactableObjects := interactableObjects s @ [obj]\<rparr>"

text \<open>
  \<^verbatim>\<open>indexOf\<close> and \<^verbatim>\<open>splice(index, 1)\<close>: the first occurrence of this very object is removed
  (\<open>remove1\<close>); another object with the same field values has another \<open>ident\<close> and is not
  found.
\<close>

definition removeInteractableObject :: "InteractableObject \<Rightarrow> InteractionSystem \<Rightarrow> InteractionSystem" where
  "removeInteractableObject obj s =
     (if obj \<in> set (interactableObjects s) then
        let s1 = s\<lparr>interactableObjects := remove1 obj (interactableObjects s)\<rparr>
        in if currentHoveredObject s1 = Some obj
           then updateInteractionPrompt (s1\<lparr>currentHoveredObject := None\<rparr>)
           else s1
      else s)"

definition findInteractableObjectByName :: "string \<Rightarrow> InteractionSystem \<Rightarrow> InteractableObject option" where
  "findInteractableObjectByName nm s = find (\<lambda>obj. name obj = nm) (interactableObjects s)"

subsection \<open>Example entities\<close>

definition entity_A :: InteractableObject where
  "entity_A = \<lparr> ident = 1, object3d = 1, name = ''A'', description = ''first'', onInteract = Callback 10,
       onHover = Some (Callback 11), onHoverEnd = Some (Callback 12),
       interactionDistance = Num 3 \<rparr>"

definition entity_B :: InteractableObject where
  "entity_B = \<lparr> ident = 2, object3d = 2, name = ''B'', description = ''second'', onInteract = Callback 20,
       onHover = Some (Callback 21), onHoverEnd = Some (Callback 22),
       interactionDistance = Num 10 \<rparr>"

text \<open>Another object with the field values of entity A, never registered.\<close>

definition twin_of_A :: InteractableObject where
  "twin_of_A = entity_A\<lparr>ident := 3\<rparr>"

text \<open>A mesh (object 5) inside entity A's object, and entity B's object itself.\<close>

definition mesh_in_A :: node where
  "mesh_in_A = Node 5 (Some (Node 1 (Some (Node 0 None))))"

definition node_B :: node where
  "node_B = Node 2 (Some (Node 0 None))"

definition hovering_A :: InteractionSystem where
  "hovering_A =
     \<lparr> interactableObjects = [entity_A, entity_B],
       currentHoveredObject = Some entity_A,
       interactionPrompt = Some \<lparr> textContent = prompt_prefix @ ''first'', visible_class = True \<rparr>,
       calls = [] \<rparr>"

text \<open>
  What one intersection resolves to in the loop of \<open>getIntersectedInteractableObject\<close>: the
  first registered entity whose object is the hit object or one of its ancestors, when the
  hit is within that entity's interaction distance.
\<close>

definition in_range_entity :: "intersection \<Rightarrow> InteractableObject list \<Rightarrow> InteractableObject option" where
  "in_range_entity i objs =
     (case find (\<lambda>obj. isChildOf (hit_object i) (object3d obj)) objs of
        Some obj \<Rightarrow> if js_le (hit_distance i) (interactionDistance obj) then Some obj else None
      | None \<Rightarrow> None)"

section \<open>The performance optimizer\<close>

datatype PerformanceLevel = High | Medium | Low

record optimizationSettings =
  enableLOD :: bool
  enableFrustumCulling :: bool
  enableOcclusion :: bool
  maxShadowDistance :: jsnum
  shadowMapSize :: jsnum

record LODConfig =
  nearDistance :: jsnum
  mediumDistance :: jsnum
  farDistance :: jsnum
  lod_castShadow :: "bool option"
  originalShininess :: "jsnum option"

text \<open>
  An object as \<^verbatim>\<open>traverse\<close> sees it: its identity and its children, a finite tree. The
  attributes of the objects are in the heap.
\<close>

datatype tree = Tree (root: objref) (children: "tree list")

text \<open>\<^verbatim>\<open>Object3D.traverse\<close>: the callback on the object, then on each child's subtree.\<close>

fun traverse :: "(objref \<Rightarrow> heap \<Rightarrow> heap) \<Rightarrow> tree \<Rightarrow> heap \<Rightarrow> heap" where
  "traverse cb (Tree r cs) h = fold (traverse cb) cs (cb r h)"

fun preorder :: "tree \<Rightarrow> objref list" where
  "preorder (Tree r cs) = r # concat (map preorder cs)"

record camera =
  camera_position :: vec3
  isPerspectiveCamera :: bool

text \<open>
  The optimizer with the heap of scene objects it mutates. \<open>lodObjects\<close> is a \<^verbatim>\<open>Map\<close> keyed
  by object, in insertion order. The renderer's shadow settings and the fog, which only
  \<open>adjustQualitySettings\<close> writes, are left out.
\<close>

record PerformanceOptimizer =
  scene_objects :: heap
  scene :: tree
  camera :: camera
  frameCount :: jsnum
  lastTime :: jsnum
  averageFPS :: jsnum
  performanceLevel :: PerformanceLevel
  lodObjects :: "(tree \<times> LODConfig) list"
  optimizationSettings :: optimizationSettings

text \<open>\<open>currentTime\<close> is what \<^verbatim>\<open>performance.now()\<close> returns.\<close>

definition updatePerformanceLevel :: "jsnum \<Rightarrow> PerformanceOptimizer \<Rightarrow> PerformanceOptimizer" where
  "updatePerformanceLevel currentTime p =
     (let deltaTime = js_sub currentTime (lastTime p);
          p1 = (if js_ge deltaTime (Num 1000) then
                  let avg = js_div (js_mul (frameCount p) (Num 1000)) deltaTime
                  in p\<lparr> averageFPS := avg,
                        frameCount := Num 0,
                        lastTime := currentTime,
                        performanceLevel :=
                          (if js_ge avg (Num 50) then High
                           else if js_ge avg (Num 30) then Medium
                           else Low) \<rparr>
                else p)
      in p1\<lparr>frameCount := js_add (frameCount p1) (Num 1)\<rparr>)"

definition addLODObject :: "tree \<Rightarrow> LODConfig \<Rightarrow> PerformanceOptimizer \<Rightarrow> PerformanceOptimizer" where
  "addLODObject obj cfg p = p\<lparr>lodObjects := AList.update obj cfg (lodObjects p)\<rparr>"

text \<open>\<^verbatim>\<open>Vector3.distanceTo\<close>: the square root of the sum of the squared differences.\<close>

fun distanceTo :: "vec3 \<Rightarrow> vec3 \<Rightarrow> jsnum" where
  "distanceTo (Vector3 a b c) (Vector3 a' b' c') =
     (let dx = js_sub a a'; dy = js_sub b b'; dz = js_sub c c'
      in js_sqrt (js_add (js_add (js_mul dx dx) (js_mul dy dy)) (js_mul dz dz)))"

text \<open>The callbacks of \<open>applyMediumLOD\<close> and \<open>applyHighLOD\<close>, on one object of the subtree.\<close>

definition mediumLOD_child :: "objref \<Rightarrow> heap \<Rightarrow> heap" where
  "mediumLOD_child r h =
     (case kind (h r) of
        Mesh mat bs \<Rightarrow>
          h(r := (h r)\<lparr> kind := Mesh (case mat of
                                         MeshPhongMaterial e sh \<Rightarrow> MeshPhongMaterial e (js_min sh (Num 50))
                                       | OtherMaterial \<Rightarrow> OtherMaterial) bs,
                         castShadow := False \<rparr>)
      | PlainObject \<Rightarrow> h)"

definition applyMediumLOD :: "tree \<Rightarrow> heap \<Rightarrow> heap" where
  "applyMediumLOD obj h = traverse mediumLOD_child obj h"

definition highLOD_child :: "LODConfig \<Rightarrow> objref \<Rightarrow> heap \<Rightarrow> heap" where
  "highLOD_child cfg r h =
     (case kind (h r) of
        Mesh mat bs \<Rightarrow>
          h(r := (h r)\<lparr> kind := Mesh (case mat of
                                         MeshPhongMaterial e sh \<Rightarrow>
                                           MeshPhongMaterial e (js_or (originalShininess cfg) (Num 100))
                                       | OtherMaterial \<Rightarrow> OtherMaterial) bs,
                         castShadow := (lod_castShadow cfg \<noteq> Some False) \<rparr>)
      | PlainObject \<Rightarrow> h)"

definition applyHighLOD :: "tree \<Rightarrow> LODConfig \<Rightarrow> heap \<Rightarrow> heap" where
  "applyHighLOD obj cfg h = traverse (highLOD_child cfg) obj h"

text \<open>The body of the loop of \<open>updateLOD\<close>, for one entry of the map.\<close>

definition lod_entry :: "vec3 \<Rightarrow> heap \<Rightarrow> tree \<times> LODConfig \<Rightarrow> heap" where
  "lod_entry cameraPosition h entry =
     (let obj = fst entry; cfg = snd entry;
          distance = distanceTo cameraPosition (position (h (root obj)))
      in if js_gt distance (farDistance cfg) then
           h(root obj := (h (root obj))\<lparr>visible := False\<rparr>)
         else if js_gt distance (mediumDistance cfg) then
           applyMediumLOD obj (h(root obj := (h (root obj))\<lparr>visible := True\<rparr>))
         else
           applyHighLOD obj cfg (h(root obj := (h (root obj))\<lparr>visible := True\<rparr>)))"

definition updateLOD :: "PerformanceOptimizer \<Rightarrow> PerformanceOptimizer" where
  "updateLOD p =
     (if \<not> enableLOD (optimizationSettings p) then p
      else p\<lparr>scene_objects :=
               foldl (lod_entry (camera_position (camera p))) (scene_objects p) (lodObjects p)\<rparr>)"

text \<open>
  Frustum culling. The frustum that the rendering library builds from the camera's
  matrices is given by its test \<open>intersectsSphere\<close>, and \<open>applyMatrix4\<close> is the library's
  transformation of a sphere by a matrix; both are parameters.
\<close>

definition cull_object :: "(sphere \<Rightarrow> bool) \<Rightarrow> (sphere \<Rightarrow> mat4 \<Rightarrow> sphere) \<Rightarrow> objref \<Rightarrow> heap \<Rightarrow> heap" where
  "cull_object intersectsSphere applyMatrix4 r h =
     (case kind (h r) of
        Mesh mat (Some bs) \<Rightarrow>
          h(r := (h r)\<lparr>visible := intersectsSphere (applyMatrix4 bs (matrixWorld (h r)))\<rparr>)
      | _ \<Rightarrow> h)"

definition updateFrustumCulling ::
  "(sphere \<Rightarrow> bool) \<Rightarrow> (sphere \<Rightarrow> mat4 \<Rightarrow> sphere) \<Rightarrow> PerformanceOptimizer \<Rightarrow> PerformanceOptimizer" where
  "updateFrustumCulling intersectsSphere applyMatrix4 p =
     (if \<not> enableFrustumCulling (optimizationSettings p) then p
      else if isPerspectiveCamera (camera p) then
        p\<lparr>scene_objects :=
             traverse (cull_object intersectsSphere applyMatrix4) (scene p) (scene_objects p)\<rparr>
      else p)"

text \<open>The optimizer's \<open>update\<close>, called once per frame.\<close>

definition PerformanceOptimizer_update ::
  "(sphere \<Rightarrow> bool) \<Rightarrow> (sphere \<Rightarrow> mat4 \<Rightarrow> sphere) \<Rightarrow> PerformanceOptimizer \<Rightarrow> PerformanceOptimizer" where
  "PerformanceOptimizer_update intersectsSphere applyMatrix4 p =
     updateFrustumCulling intersectsSphere applyMatrix4 (updateLOD p)"

text \<open>The bounding sphere and the shininess of an object, when it has one.\<close>

definition boundingSphere_of :: "Object3D \<Rightarrow> sphere option" where
  "boundingSphere_of n = (case kind n of Mesh mat bs \<Rightarrow> bs | PlainObject \<Rightarrow> None)"

definition shininess_of :: "Object3D \<Rightarrow> jsnum option" where
  "shininess_of n = (case kind n of Mesh (MeshPhongMaterial e sh) bs \<Rightarrow> Some sh | _ \<Rightarrow> None)"

text \<open>What \<open>cull_object\<close>, \<open>mediumLOD_child\<close> and \<open>highLOD_child\<close> do to the object they visit.\<close>

definition cull_node :: "(sphere \<Rightarrow> bool) \<Rightarrow> (sphere \<Rightarrow> mat4 \<Rightarrow> sphere) \<Rightarrow> Object3D \<Rightarrow> Object3D" where
  "cull_node intersectsSphere applyMatrix4 n =
     (case kind n of
        Mesh mat (Some bs) \<Rightarrow> n\<lparr>visible := intersectsSphere (applyMatrix4 bs (matrixWorld n))\<rparr>
      | _ \<Rightarrow> n)"

definition mediumLOD_node :: "Object3D \<Rightarrow> Object3D" where
  "mediumLOD_node n =
     (case kind n of
        Mesh mat bs \<Rightarrow>
          n\<lparr> kind := Mesh (case mat of
                             MeshPhongMaterial e sh \<Rightarrow> MeshPhongMaterial e (js_min sh (Num 50))
                           | OtherMaterial \<Rightarrow> OtherMaterial) bs,
             castShadow := False \<rparr>
      | PlainObject \<Rightarrow> n)"

definition highLOD_node :: "LODConfig \<Rightarrow> Object3D \<Rightarrow> Object3D" where
  "highLOD_node cfg n =
     (case kind n of
        Mesh mat bs \<Rightarrow>
          n\<lparr> kind := Mesh (case mat of
                             MeshPhongMaterial e sh \<Rightarrow>
                               MeshPhongMaterial e (js_or (originalShininess cfg) (Num 100))
                           | OtherMaterial \<Rightarrow> OtherMaterial) bs,
             castShadow := (lod_castShadow cfg \<noteq> Some False) \<rparr>
      | PlainObject \<Rightarrow> n)"

subsection \<open>Example scene for the optimizer\<close>

text \<open>
  Object 7 is a Phong mesh of shininess 0 with a bounding sphere, three units from the
  camera; every other object is \<open>example_object\<close>, a mesh without a bounding sphere.
\<close>

definition near_mesh :: Object3D where
  "near_mesh =
     \<lparr> position = Vector3 (Num 3) (Num 0) (Num 0),
       rotation = Euler (Num 0) (Num 0) (Num 0) ''XYZ'',
       scale = Vector3 (Num 1) (Num 1) (Num 1),
       visible = True,
       castShadow = True,
       kind = Mesh (MeshPhongMaterial (Color (Num 0) (Num 0) (Num 0)) (Num 0))
                   (Some (Sphere (Vector3 (Num 0) (Num 0) (Num 0)) (Num 1))),
       matrixWorld = [] \<rparr>"

definition matte_config :: LODConfig where
  "matte_config =
     \<lparr> nearDistance = Num 5, mediumDistance = Num 10, farDistance = Num 20,
       lod_castShadow = Some True, originalShininess = Some (Num 0) \<rparr>"

definition example_optimizer :: PerformanceOptimizer where
  "example_optimizer =
     \<lparr> scene_objects = (\<lambda>r. if r = 7 then near_mesh else example_object),
       scene = Tree 0 [Tree 7 [], Tree 8 []],
       camera = \<lparr> camera_position = Vector3 (Num 0) (Num 0) (Num 0), isPerspectiveCamera = True \<rparr>,
       frameCount = Num 0,
       lastTime = Num 0,
       averageFPS = Num 60,
       performanceLevel = High,
       lodObjects = [(Tree 7 [], matte_config)],
       optimizationSettings =
         \<lparr> enableLOD = True, enableFrustumCulling = True, enableOcclusion = False,
           maxShadowDistance = Num 100, shadowMapSize = Num 2048 \<rparr> \<rparr>"


section \<open>Properties of the animation manager\<close>

subsection \<open>Helper lemmas: what the operations leave alone\<close>

lemma is_phong_set_emissive [simp]: "is_phong (set_emissive c n) = is_phong n"
  by (auto simp: is_phong_def emissive_of_def set_emissive_def split: kind.splits material.splits)

lemma is_phong_upd [simp]:
  "is_phong (n\<lparr>position := p\<rparr>) = is_phong n"
  "is_phong (n\<lparr>rotation := r\<rparr>) = is_phong n"
  "is_phong (n\<lparr>scale := s\<rparr>) = is_phong n"
  by (simp_all add: is_phong_def emissive_of_def)

lemma is_phong_updateAnimation [simp]:
  "is_phong (updateAnimation a p e h r) = is_phong (h r)"
  by (cases "type' (config a)")
     (auto simp: updateAnimation_def updateFloatAnimation_def updateRotateAnimation_def
        updatePulseAnimation_def updateGlowAnimation_def updateBounceAnimation_def Let_def
        split: option.splits)

lemma is_phong_update_entry [simp]:
  "is_phong (update_entry t h e r) = is_phong (h r)"
  by (simp add: update_entry_def Let_def)

lemma is_phong_foldl [simp]:
  "is_phong (foldl (update_entry t) h xs r) = is_phong (h r)"
  by (induction xs arbitrary: h) simp_all

lemma is_phong_update [simp]: "is_phong (objects (update t m) r) = is_phong (objects m r)"
  by (simp add: update_def)

lemma is_phong_start [simp]: "is_phong (objects (start t m) r) = is_phong (objects m r)"
  by (simp add: start_def)

lemma is_phong_restore [simp]: "is_phong (restore a h r) = is_phong (h r)"
  by (simp add: restore_def Let_def split: option.splits)

lemma is_phong_step [simp]: "is_phong (objects (step op m) r) = is_phong (objects m r)"
  by (cases op)
     (simp_all add: addAnimation_def removeAnimation_def playAnimation_def pauseAnimation_def
        stop_def Let_def split: option.splits)

lemma is_phong_run [simp]: "is_phong (objects (run ops m) r) = is_phong (objects m r)"
  unfolding run_def by (induction ops arbitrary: m) simp_all

lemma animations_update [simp]: "animations (update t m) = animations m"
  by (simp add: update_def)

lemma animations_start [simp]: "animations (start t m) = animations m"
  by (simp add: start_def)

lemma animations_stop [simp]: "animations (stop m) = animations m"
  by (simp add: stop_def)

lemma animations_removeAnimation:
  "animations (removeAnimation j m) = AList.delete j (animations m)"
  by (auto simp: removeAnimation_def Let_def map_of_eq_None_iff split: option.splits)

lemma baseline_step:
  assumes "map_of (animations m) i = Some a" and "\<not> rebinds i op"
  shows "\<exists>a'. map_of (animations (step op m)) i = Some a' \<and> baseline a' = baseline a"
  using assms
  by (cases op)
     (auto simp: addAnimation_def animations_removeAnimation playAnimation_def pauseAnimation_def
        Let_def update_conv' baseline_def split: option.splits)

lemma baseline_run:
  assumes "map_of (animations m) i = Some a" and "\<forall>op\<in>set ops. \<not> rebinds i op"
  shows "\<exists>a'. map_of (animations (run ops m)) i = Some a' \<and> baseline a' = baseline a"
  using assms unfolding run_def
proof (induction ops arbitrary: m a)
  case Nil
  then show ?case by simp
next
  case (Cons op ops)
  from baseline_step [OF Cons.prems(1), of op] Cons.prems(2)
  obtain a1 where a1: "map_of (animations (step op m)) i = Some a1" "baseline a1 = baseline a"
    by auto
  from Cons.IH [OF a1(1)] Cons.prems(2) a1(2) show ?case by auto
qed

lemma baseline_addAnimation:
  "\<exists>a. map_of (animations (addAnimation i obj cfg now now' m)) i = Some a \<and>
       baseline a = (obj, position (objects m obj), rotation (objects m obj),
                     scale (objects m obj), emissive_of (objects m obj))"
  by (simp add: addAnimation_def Let_def update_conv' baseline_def)

lemma is_phong_addAnimation [simp]:
  "is_phong (objects (addAnimation i obj cfg now now' m) r) = is_phong (objects m r)"
  using is_phong_step [of "Add i obj cfg now now'" m r] by simp

lemma objects_removeAnimation:
  assumes "map_of (animations m) i = Some a"
  shows "objects (removeAnimation i m) = restore a (objects m)"
  using assms by (simp add: removeAnimation_def stop_def Let_def)

lemma emissive_of_set_emissive:
  "emissive_of (set_emissive e n) = (if is_phong n then Some e else None)"
  by (auto simp: is_phong_def emissive_of_def set_emissive_def split: kind.splits material.splits)

lemma emissive_of_upd [simp]:
  "emissive_of (n\<lparr>position := p\<rparr>) = emissive_of n"
  "emissive_of (n\<lparr>rotation := r\<rparr>) = emissive_of n"
  "emissive_of (n\<lparr>scale := s\<rparr>) = emissive_of n"
  by (simp_all add: emissive_of_def)

lemma fields_set_emissive [simp]:
  "position (set_emissive e n) = position n"
  "rotation (set_emissive e n) = rotation n"
  "scale (set_emissive e n) = scale n"
  by (simp_all add: set_emissive_def split: kind.splits material.splits)

lemma restore_at_object:
  assumes "baseline a = (obj, p, r, s, em)" and "is_phong (h obj) = (em \<noteq> None)"
  shows "position (restore a h obj) = p \<and> rotation (restore a h obj) = r \<and>
         scale (restore a h obj) = s \<and> emissive_of (restore a h obj) = em"
  using assms
  by (auto simp: baseline_def restore_def Let_def emissive_of_set_emissive is_phong_def
      split: option.splits)

lemma baseline_roundtrip:
  assumes "\<forall>op\<in>set ops. \<not> rebinds i op"
  shows "(let n0 = objects m0 obj;
              m = run ops (addAnimation i obj cfg now now' m0);
              n = objects (removeAnimation i m) obj
          in (\<exists>a. map_of (animations m) i = Some a \<and>
                   baseline a = (obj, position n0, rotation n0, scale n0, emissive_of n0)) \<and>
             position n = position n0 \<and> rotation n = rotation n0 \<and>
             scale n = scale n0 \<and> emissive_of n = emissive_of n0)"
proof -
  let ?n0 = "objects m0 obj"
  let ?m = "run ops (addAnimation i obj cfg now now' m0)"
  obtain a0 where a0: "map_of (animations (addAnimation i obj cfg now now' m0)) i = Some a0"
      "baseline a0 = (obj, position ?n0, rotation ?n0, scale ?n0, emissive_of ?n0)"
    using baseline_addAnimation by blast
  obtain a where a: "map_of (animations ?m) i = Some a" "baseline a = baseline a0"
    using baseline_run [OF a0(1) assms] by blast
  have "is_phong (objects ?m obj) = is_phong ?n0"
    by simp
  then have ph: "is_phong (objects ?m obj) = (emissive_of ?n0 \<noteq> None)"
    by (simp only: is_phong_def [of ?n0])
  have b: "baseline a = (obj, position ?n0, rotation ?n0, scale ?n0, emissive_of ?n0)"
    using a(2) a0(2) by simp
  from restore_at_object [of a obj _ _ _ _ "objects ?m", OF b ph] objects_removeAnimation [OF a(1)] a(1) b
  show ?thesis by (simp add: Let_def)
qed

lemma float_quarter_cycle:
  assumes "animations m0 = []" "\<not> isRunning m0" "vy (position (objects m0 obj)) = Num 5"
      "type' cfg = FLOAT" "amplitude cfg = Some (Num 2)" "duration cfg = Num d" "0 < d"
      "autoStart cfg \<noteq> Some False"
  shows "(let m1 = addAnimation i obj cfg (Num t0) now' m0;
              m2 = update (Num (t0 + d / 4)) m1;
              m3 = removeAnimation i m2
          in vy (position (objects m2 obj)) = Num 7 \<and> vy (position (objects m3 obj)) = Num 5)"
  using assms
  apply (cases "position (objects m0 obj)")
  apply (simp add: addAnimation_def Let_def start_def update_def update_entry_def updateAnimation_def
      updateFloatAnimation_def removeAnimation_def restore_def js_pi_def trunc_def stop_def
      split: option.splits)
  done

subsection \<open>Baseline snapshot and restore\<close>

text \<open>
  C2. The baseline captured by \<open>addAnimation\<close> is the object's position, rotation, scale and
  emissive colour at registration. No later operation changes the baseline stored under the
  id (as long as the id is not registered again or removed), and \<open>removeAnimation\<close> puts the
  object's position, rotation, scale and emissive colour back to exactly those values. In
  particular: a Float animation of amplitude 2 on an object at y = 5, alone in the registry,
  puts the object at y = 7 a quarter of a cycle after its start (progress 0.25) and
  \<open>removeAnimation\<close> puts it back at y = 5.
\<close>

theorem removeAnimation_restores_baseline:
  assumes "\<forall>op\<in>set ops. \<not> rebinds i op"
  shows "(let n0 = objects m0 obj;
              m = run ops (addAnimation i obj cfg now now' m0);
              n = objects (removeAnimation i m) obj
          in (\<exists>a. map_of (animations m) i = Some a \<and>
                   baseline a = (obj, position n0, rotation n0, scale n0, emissive_of n0)) \<and>
             position n = position n0 \<and> rotation n = rotation n0 \<and>
             scale n = scale n0 \<and> emissive_of n = emissive_of n0) \<and>
         (animations mf = [] \<and> \<not> isRunning mf \<and> vy (position (objects mf objf)) = Num 5 \<and>
          type' cfgf = FLOAT \<and> amplitude cfgf = Some (Num 2) \<and> duration cfgf = Num d \<and>
          0 < d \<and> autoStart cfgf \<noteq> Some False \<longrightarrow>
          (let m1 = addAnimation j objf cfgf (Num t0) nowf mf;
               m2 = update (Num (t0 + d / 4)) m1;
               m3 = removeAnimation j m2
           in vy (position (objects m2 objf)) = Num 7 \<and> vy (position (objects m3 objf)) = Num 5))"
  using baseline_roundtrip [OF assms] float_quarter_cycle by blast

theorem removeAnimation_restores_baseline_witness:
  "position (objects (removeAnimation ''float''
       (run [Tick (Num 1), Pause ''float'', Play ''float'' (Num 2) (Num 2), Tick (Num 3)]
          (addAnimation ''float'' 0 float_config (Num 0) (Num 0)
             (new_AnimationManager example_heap)))) 0) = Vector3 (Num 0) (Num 5) (Num 0) \<and>
   vy (position (objects (update (Num 1)
       (addAnimation ''float'' 0 float_config (Num 0) (Num 0)
          (new_AnimationManager example_heap))) 0)) = Num 7 \<and>
   vy (position (objects (removeAnimation ''float'' (update (Num 1)
       (addAnimation ''float'' 0 float_config (Num 0) (Num 0)
          (new_AnimationManager example_heap)))) 0)) = Num 5"
proof -
  have h: "\<forall>op\<in>set [Tick (Num 1), Pause ''float'', Play ''float'' (Num 2) (Num 2), Tick (Num 3)].
      \<not> rebinds ''float'' op"
    by simp
  from removeAnimation_restores_baseline [OF h, of "new_AnimationManager example_heap" 0
      float_config "Num 0" "Num 0" "new_AnimationManager example_heap" 0 float_config 4
      "''float''" 0 "Num 0"]
  show ?thesis
    by (simp add: Let_def new_AnimationManager_def example_heap_def example_object_def
        float_config_def)
qed

subsection \<open>Unknown ids\<close>

text \<open>
  C10. For an id that is not in the registry, \<open>playAnimation\<close>, \<open>pauseAnimation\<close> and
  \<open>removeAnimation\<close> leave the registered instances and every scene object unchanged (the
  model has no error result: each of them is guarded by the lookup), and \<open>isAnimationActive\<close>
  is false.
\<close>

theorem absent_id_is_noop:
  assumes "map_of (animations m) i = None"
  shows "animations (playAnimation i now now' m) = animations m \<and>
         objects (playAnimation i now now' m) = objects m \<and>
         animations (pauseAnimation i m) = animations m \<and>
         objects (pauseAnimation i m) = objects m \<and>
         animations (removeAnimation i m) = animations m \<and>
         objects (removeAnimation i m) = objects m \<and>
         \<not> isAnimationActive i m"
  using assms
  by (simp add: playAnimation_def pauseAnimation_def removeAnimation_def isAnimationActive_def
      stop_def)

theorem absent_id_is_noop_witness:
  "map_of (animations (addAnimation ''float'' 0 float_config (Num 0) (Num 0)
       (new_AnimationManager example_heap))) ''other'' = None \<and>
   animations (playAnimation ''other'' (Num 1) (Num 1)
       (addAnimation ''float'' 0 float_config (Num 0) (Num 0)
          (new_AnimationManager example_heap))) =
     animations (addAnimation ''float'' 0 float_config (Num 0) (Num 0)
       (new_AnimationManager example_heap)) \<and>
   objects (removeAnimation ''other''
       (addAnimation ''float'' 0 float_config (Num 0) (Num 0)
          (new_AnimationManager example_heap))) =
     objects (addAnimation ''float'' 0 float_config (Num 0) (Num 0)
       (new_AnimationManager example_heap)) \<and>
   \<not> isAnimationActive ''other''
       (addAnimation ''float'' 0 float_config (Num 0) (Num 0)
          (new_AnimationManager example_heap))"
proof -
  have h: "map_of (animations (addAnimation ''float'' 0 float_config (Num 0) (Num 0)
       (new_AnimationManager example_heap))) ''other'' = None"
    by (simp add: addAnimation_def Let_def new_AnimationManager_def start_def update_def)
  from absent_id_is_noop [OF h, of "Num 1" "Num 1"] h show ?thesis by simp
qed

subsection \<open>The tick loop and the active instances\<close>

lemma isRunning_update [simp]: "isRunning (update t m) = isRunning m"
  by (simp add: update_def)

lemma isRunning_start [simp]: "isRunning (start t m)"
  by (simp add: start_def)

lemma active_count_pos:
  "0 < active_count m \<longleftrightarrow> (\<exists>e\<in>set (animations m). isActive (snd e))"
  by (simp add: active_count_def filter_empty_conv)

lemma in_set_updateD: "e \<in> set (AList.update k v al) \<Longrightarrow> e = (k, v) \<or> e \<in> set al"
  by (induction al) (auto split: if_splits)

lemma in_set_deleteD: "e \<in> set (AList.delete k al) \<Longrightarrow> e \<in> set al"
  by (simp add: AList.delete_eq)

lemma loop_inv_addAnimation: "loop_inv m \<Longrightarrow> loop_inv (addAnimation i obj cfg now now' m)"
  by (auto simp: loop_inv_def active_count_pos addAnimation_def Let_def dest!: in_set_updateD)

lemma loop_inv_removeAnimation: "loop_inv m \<Longrightarrow> loop_inv (removeAnimation i m)"
  by (auto simp: loop_inv_def active_count_pos removeAnimation_def Let_def stop_def
      split: option.splits dest!: in_set_deleteD)

lemma loop_inv_playAnimation: "loop_inv m \<Longrightarrow> loop_inv (playAnimation i now now' m)"
  by (auto simp: loop_inv_def playAnimation_def Let_def split: option.splits)

lemma loop_inv_pauseAnimation: "loop_inv m \<Longrightarrow> loop_inv (pauseAnimation i m)"
  by (auto simp: loop_inv_def active_count_pos pauseAnimation_def split: option.splits
      dest!: in_set_updateD)

lemma loop_inv_step: "loop_inv m \<Longrightarrow> op \<noteq> Stop \<Longrightarrow> loop_inv (step op m)"
  by (cases op)
     (simp_all add: loop_inv_addAnimation loop_inv_removeAnimation loop_inv_playAnimation
        loop_inv_pauseAnimation, simp_all add: loop_inv_def active_count_def)

lemma loop_inv_run: "loop_inv m \<Longrightarrow> \<forall>op\<in>set ops. op \<noteq> Stop \<Longrightarrow> loop_inv (run ops m)"
  unfolding run_def by (induction ops arbitrary: m) (simp_all add: loop_inv_step)

lemma loop_inv_new: "loop_inv (new_AnimationManager h)"
  by (simp add: loop_inv_def new_AnimationManager_def active_count_def)

lemma isRunning_pauseAnimation: "isRunning (pauseAnimation i m) = isRunning m"
  by (simp add: pauseAnimation_def split: option.splits)

lemma addAnimation_starts:
  "autoStart cfg \<noteq> Some False \<Longrightarrow> isRunning (addAnimation i obj cfg now now' m)"
  by (simp add: addAnimation_def Let_def)

lemma playAnimation_starts:
  "map_of (animations m) i \<noteq> None \<Longrightarrow> isRunning (playAnimation i now now' m)"
  by (auto simp: playAnimation_def Let_def)

text \<open>
  C4, as the code has it. \<open>addAnimation\<close> with autostart and \<open>playAnimation\<close> of a
  registered id always leave the loop running, and \<open>pauseAnimation\<close> never changes whether
  it runs, so pausing the last active instance leaves the loop running. As long as \<open>stop\<close>
  is not called directly, after any sequence of the manager's other calls and ticks from a
  new manager, the loop is running whenever some instance is active.
\<close>

theorem loop_runs_while_active:
  assumes "\<forall>op\<in>set ops. op \<noteq> Stop"
  shows "(0 < active_count (run ops (new_AnimationManager h)) \<longrightarrow>
            isRunning (run ops (new_AnimationManager h))) \<and>
         isRunning (pauseAnimation i m) = isRunning m \<and>
         (autoStart cfg \<noteq> Some False \<longrightarrow> isRunning (addAnimation i obj cfg now now' m)) \<and>
         (map_of (animations m) i \<noteq> None \<longrightarrow> isRunning (playAnimation i now now' m))"
  using loop_inv_run [OF loop_inv_new assms, of h]
  by (simp add: loop_inv_def isRunning_pauseAnimation addAnimation_starts playAnimation_starts)

text \<open>
  At the example: after registering, ticking, pausing and playing again the loop is
  running; from the stopped manager that \<open>stop\<close> leaves, registering another instance or
  playing the registered one starts the loop again, and pausing does not.
\<close>

theorem loop_runs_while_active_witness:
  "isRunning (run [Add ''float'' 0 float_config (Num 0) (Num 0), Tick (Num 1), Pause ''float'',
        Play ''float'' (Num 2) (Num 2)] (new_AnimationManager example_heap)) \<and>
   isRunning (addAnimation ''spin'' 0 (rotate_config (Num 4)) (Num 4) (Num 4)
      (stop (run [Add ''float'' 0 float_config (Num 0) (Num 0), Tick (Num 1), Pause ''float'',
        Play ''float'' (Num 2) (Num 2)] (new_AnimationManager example_heap)))) \<and>
   isRunning (playAnimation ''float'' (Num 4) (Num 4)
      (stop (run [Add ''float'' 0 float_config (Num 0) (Num 0), Tick (Num 1), Pause ''float'',
        Play ''float'' (Num 2) (Num 2)] (new_AnimationManager example_heap)))) \<and>
   \<not> isRunning (pauseAnimation ''float''
      (stop (run [Add ''float'' 0 float_config (Num 0) (Num 0), Tick (Num 1), Pause ''float'',
        Play ''float'' (Num 2) (Num 2)] (new_AnimationManager example_heap))))"
proof -
  let ?ops = "[Add ''float'' 0 float_config (Num 0) (Num 0), Tick (Num 1), Pause ''float'',
        Play ''float'' (Num 2) (Num 2)]"
  let ?m = "run ?ops (new_AnimationManager example_heap)"
  have h: "\<forall>op\<in>set ?ops. op \<noteq> Stop"
    by simp
  have a: "animations ?m =
      [(''float'', \<lparr> object = 0, config = float_config\<lparr>loop := Some True, autoStart := Some True\<rparr>,
          startTime = Num 2, isActive = True,
          originalPosition = Vector3 (Num 0) (Num 5) (Num 0),
          originalRotation = Euler (Num 0) (Num 0) (Num 0) ''XYZ'',
          originalScale = Vector3 (Num 1) (Num 1) (Num 1),
          originalEmissive = Some (Color (Num 1) (Num 1) (Num 1)) \<rparr>)]"
    by (simp add: run_def addAnimation_def pauseAnimation_def playAnimation_def Let_def
        new_AnimationManager_def float_config_def start_def update_def example_heap_def
        example_object_def emissive_of_def)
  have c: "0 < active_count ?m"
    by (simp add: active_count_def a)
  have p: "map_of (animations (stop ?m)) ''float'' \<noteq> None"
    by (simp add: a)
  have s: "autoStart (rotate_config (Num 4)) \<noteq> Some False"
    by (simp add: rotate_config_def)
  have n: "\<not> isRunning (stop ?m)"
    by (simp add: stop_def)
  from loop_runs_while_active [OF h, of example_heap "''float''" "stop ?m" "rotate_config (Num 4)"
      0 "Num 4" "Num 4"]
    loop_runs_while_active [OF h, of example_heap "''spin''" "stop ?m" "rotate_config (Num 4)"
      0 "Num 4" "Num 4"]
    c p s n
  show ?thesis by simp
qed

text \<open>
  C4 as stated fails: pausing the only active instance takes the number of active
  instances from 1 to 0 and the loop is still running.
\<close>

theorem pause_leaves_loop_running:
  "active_count (addAnimation ''float'' 0 float_config (Num 0) (Num 0)
      (new_AnimationManager example_heap)) = 1 \<and>
   active_count (pauseAnimation ''float'' (addAnimation ''float'' 0 float_config (Num 0) (Num 0)
      (new_AnimationManager example_heap))) = 0 \<and>
   isRunning (pauseAnimation ''float'' (addAnimation ''float'' 0 float_config (Num 0) (Num 0)
      (new_AnimationManager example_heap)))"
  by (simp add: active_count_def pauseAnimation_def addAnimation_def Let_def
      new_AnimationManager_def float_config_def start_def update_def)

subsection \<open>The tick and the duration\<close>






lemma progress_nonzero_duration:
  "d \<noteq> 0 \<Longrightarrow> js_div (js_rem (Num x) (Num d)) (Num d) = Num ((x - d * of_int (trunc (x / d))) / d)"
  by simp

lemma emissive_of_set_emissive': "is_phong n \<Longrightarrow> emissive_of (set_emissive c n) = Some c"
  by (simp add: emissive_of_set_emissive)






section \<open>Properties of the interaction system\<close>

subsection \<open>Resolving the target\<close>

lemma resolve_Cons:
  "getIntersectedInteractableObject (i # rest) objs =
     (case in_range_entity i objs of
        Some obj \<Rightarrow> Some obj
      | None \<Rightarrow> getIntersectedInteractableObject rest objs)"
  by (simp add: in_range_entity_def split: option.splits)

lemma resolve_skips:
  assumes "\<forall>i\<in>set pre. in_range_entity i objs = None"
  shows "getIntersectedInteractableObject (pre @ rest) objs =
         getIntersectedInteractableObject rest objs"
  using assms by (induction pre) (simp_all add: resolve_Cons del: getIntersectedInteractableObject.simps)

lemma resolve_None_iff:
  "getIntersectedInteractableObject is objs = None \<longleftrightarrow>
     (\<forall>i\<in>set is. in_range_entity i objs = None)"
  by (induction "is") (auto simp: resolve_Cons simp del: getIntersectedInteractableObject.simps(2)
      split: option.splits)

lemma resolve_Some:
  assumes "getIntersectedInteractableObject is objs = Some e"
  shows "\<exists>pre i rest. is = pre @ i # rest \<and> (\<forall>j\<in>set pre. in_range_entity j objs = None) \<and>
           in_range_entity i objs = Some e"
  using assms
proof (induction "is")
  case Nil
  then show ?case by simp
next
  case (Cons i rest)
  show ?case
  proof (cases "in_range_entity i objs")
    case None
    with Cons.prems have "getIntersectedInteractableObject rest objs = Some e"
      by (simp add: resolve_Cons del: getIntersectedInteractableObject.simps)
    from Cons.IH [OF this] obtain pre j rest' where
      "rest = pre @ j # rest'" "\<forall>k\<in>set pre. in_range_entity k objs = None"
      "in_range_entity j objs = Some e"
      by blast
    with None have "i # rest = (i # pre) @ j # rest' \<and>
        (\<forall>k\<in>set (i # pre). in_range_entity k objs = None) \<and> in_range_entity j objs = Some e"
      by simp
    then show ?thesis by blast
  next
    case (Some a)
    with Cons.prems have "a = e"
      by (simp add: resolve_Cons del: getIntersectedInteractableObject.simps)
    with Some have "i # rest = [] @ i # rest \<and>
        (\<forall>k\<in>set []. in_range_entity k objs = None) \<and> in_range_entity i objs = Some e"
      by simp
    then show ?thesis by blast
  qed
qed

text \<open>
  C5. \<open>getIntersectedInteractableObject\<close> walks the intersections in order and returns the
  entity of the first intersection that lies within its entity's own interaction distance:
  intersections that resolve to no entity in range are passed over, so a nearer hit on an
  entity that is out of its range does not block a farther entity that is in range; the
  result is none exactly when no intersection resolves to an entity in range.
\<close>

theorem nearest_in_range_entity:
  "((\<forall>j\<in>set pre. in_range_entity j objs = None) \<and> in_range_entity i objs = Some e \<longrightarrow>
      getIntersectedInteractableObject (pre @ i # rest) objs = Some e) \<and>
   (getIntersectedInteractableObject xs objs = Some e' \<longrightarrow>
      (\<exists>pre' i' rest'. xs = pre' @ i' # rest' \<and> (\<forall>j\<in>set pre'. in_range_entity j objs = None) \<and>
         in_range_entity i' objs = Some e')) \<and>
   (getIntersectedInteractableObject xs objs = None \<longleftrightarrow>
      (\<forall>j\<in>set xs. in_range_entity j objs = None)) \<and>
   (find (\<lambda>obj. isChildOf (hit_object near) (object3d obj)) objs = Some a \<and>
    \<not> js_le (hit_distance near) (interactionDistance a) \<and>
    find (\<lambda>obj. isChildOf (hit_object far) (object3d obj)) objs = Some b \<and>
    js_le (hit_distance far) (interactionDistance b) \<longrightarrow>
      getIntersectedInteractableObject [near, far] objs = Some b)"
proof -
  have 1: "(\<forall>j\<in>set pre. in_range_entity j objs = None) \<and> in_range_entity i objs = Some e \<longrightarrow>
      getIntersectedInteractableObject (pre @ i # rest) objs = Some e"
    by (simp add: resolve_skips resolve_Cons del: getIntersectedInteractableObject.simps)
  have 2: "getIntersectedInteractableObject xs objs = Some e' \<longrightarrow>
      (\<exists>pre' i' rest'. xs = pre' @ i' # rest' \<and> (\<forall>j\<in>set pre'. in_range_entity j objs = None) \<and>
         in_range_entity i' objs = Some e')"
    using resolve_Some by blast
  have 4: "find (\<lambda>obj. isChildOf (hit_object near) (object3d obj)) objs = Some a \<and>
    \<not> js_le (hit_distance near) (interactionDistance a) \<and>
    find (\<lambda>obj. isChildOf (hit_object far) (object3d obj)) objs = Some b \<and>
    js_le (hit_distance far) (interactionDistance b) \<longrightarrow>
      getIntersectedInteractableObject [near, far] objs = Some b"
    by simp
  from 1 2 resolve_None_iff [of xs objs] 4 show ?thesis by blast
qed

theorem nearest_in_range_entity_witness:
  "getIntersectedInteractableObject [Intersection mesh_in_A (Num 4), Intersection node_B (Num 6)]
     [entity_A, entity_B] = Some entity_B \<and>
   getIntersectedInteractableObject [Intersection mesh_in_A (Num 4)] [entity_A, entity_B] = None"
proof -
  let ?near = "Intersection mesh_in_A (Num 4)"
  let ?far = "Intersection node_B (Num 6)"
  let ?objs = "[entity_A, entity_B]"
  have a: "find (\<lambda>obj. isChildOf (hit_object ?near) (object3d obj)) ?objs = Some entity_A"
    by (simp add: isChildOf_def mesh_in_A_def entity_A_def)
  have b: "find (\<lambda>obj. isChildOf (hit_object ?far) (object3d obj)) ?objs = Some entity_B"
    by (simp add: isChildOf_def node_B_def entity_A_def entity_B_def)
  have c: "\<not> js_le (hit_distance ?near) (interactionDistance entity_A)"
    by (simp add: entity_A_def)
  have d: "js_le (hit_distance ?far) (interactionDistance entity_B)"
    by (simp add: entity_B_def)
  have n: "\<forall>j\<in>set [?near]. in_range_entity j ?objs = None"
    using a c by (simp add: in_range_entity_def)
  have f: "in_range_entity ?far ?objs = Some entity_B"
    using b d by (simp add: in_range_entity_def)
  note inst = nearest_in_range_entity [of "[?near]" ?objs ?far entity_B "[]" "[?near]" entity_B
      ?near entity_A ?far entity_B]
  from inst [THEN conjunct1] n f
  have 1: "getIntersectedInteractableObject ([?near] @ ?far # []) ?objs = Some entity_B"
    by blast
  from inst [THEN conjunct2, THEN conjunct2, THEN conjunct2] a b c d
  have 2: "getIntersectedInteractableObject [?near, ?far] ?objs = Some entity_B"
    by blast
  from inst [THEN conjunct2, THEN conjunct2, THEN conjunct1] n
  have 3: "getIntersectedInteractableObject [?near] ?objs = None"
    by blast
  from 2 3 show ?thesis by simp
qed

subsection \<open>Hover transitions\<close>

text \<open>
  C6, as the code has it. On a pointer move (with the pointer locked) whose resolved target
  differs from the current hover, the previous entity's hover-end callback, if any, is
  called first, while the stored hover state is still the previous entity; then the stored
  hover state is set to the new target; then the new entity's hover-begin callback, if
  any, is called, and it sees the new hover state.
\<close>

theorem hover_transition_order:
  assumes "locked"
    and "getIntersectedInteractableObject intersects (interactableObjects s) = target"
    and "target \<noteq> currentHoveredObject s"
  shows "currentHoveredObject (onCanvasMouseMove locked intersects s) = target \<and>
         calls (onCanvasMouseMove locked intersects s) =
           calls s
           @ (case currentHoveredObject s of
                Some prev \<Rightarrow> (case onHoverEnd prev of
                                Some f \<Rightarrow> [(f, currentHoveredObject s)] | None \<Rightarrow> [])
              | None \<Rightarrow> [])
           @ (case target of
                Some new \<Rightarrow> (case onHover new of Some g \<Rightarrow> [(g, target)] | None \<Rightarrow> [])
              | None \<Rightarrow> [])"
  using assms
  by (auto simp: onCanvasMouseMove_def Let_def invoke_def updateInteractionPrompt_def
      split: option.splits)

lemma resolve_B:
  "getIntersectedInteractableObject [Intersection node_B (Num 6)] [entity_A, entity_B] = Some entity_B"
  by (simp add: isChildOf_def node_B_def entity_A_def entity_B_def)

theorem hover_transition_order_witness:
  "currentHoveredObject (onCanvasMouseMove True [Intersection node_B (Num 6)] hovering_A) =
     Some entity_B \<and>
   calls (onCanvasMouseMove True [Intersection node_B (Num 6)] hovering_A) =
     [(Callback 12, Some entity_A), (Callback 21, Some entity_B)] \<and>
   calls (onCanvasMouseMove True [] hovering_A) = [(Callback 12, Some entity_A)]"
proof -
  have io: "interactableObjects hovering_A = [entity_A, entity_B]"
    by (simp add: hovering_A_def)
  have r: "getIntersectedInteractableObject [Intersection node_B (Num 6)]
      (interactableObjects hovering_A) = Some entity_B"
    by (simp only: io resolve_B)
  have n: "Some entity_B \<noteq> currentHoveredObject hovering_A"
    by (simp add: hovering_A_def entity_A_def entity_B_def)
  have r': "getIntersectedInteractableObject [] (interactableObjects hovering_A) = None"
    by simp
  have n': "None \<noteq> currentHoveredObject hovering_A"
    by (simp add: hovering_A_def)
  have c: "currentHoveredObject hovering_A = Some entity_A" "calls hovering_A = []"
    by (simp_all add: hovering_A_def)
  have f: "onHoverEnd entity_A = Some (Callback 12)" "onHover entity_B = Some (Callback 21)"
    by (simp_all add: entity_A_def entity_B_def)
  from hover_transition_order [OF TrueI r n] hover_transition_order [OF TrueI r' n']
  show ?thesis by (simp add: c f)
qed

text \<open>
  C6 as stated fails: moving from entity A to entity B, the hover-begin callback of B is
  called when the stored hover state is already B, not before the state is updated.
\<close>

theorem hover_begin_sees_new_state:
  "calls (onCanvasMouseMove True [Intersection node_B (Num 6)] hovering_A) =
     [(Callback 12, Some entity_A), (Callback 21, Some entity_B)] \<and>
   onHover entity_B = Some (Callback 21) \<and>
   currentHoveredObject hovering_A = Some entity_A"
  by (simp add: onCanvasMouseMove_def Let_def invoke_def updateInteractionPrompt_def
      hovering_A_def isChildOf_def node_B_def entity_A_def entity_B_def)

subsection \<open>Removing an entity\<close>

text \<open>
  C3, as the code has it. \<open>removeInteractableObject\<close> calls no callback. Removing the
  registered entity that is hovered clears the stored hover state and takes the class
  \<^verbatim>\<open>visible\<close> off the prompt, whose text stays; removing any other entity, or an object that is
  not registered, leaves the hover state and the prompt unchanged. In each case the first
  occurrence of the object leaves the list.
\<close>

theorem removeInteractableObject_clears_hover_silently:
  "calls (removeInteractableObject obj s) = calls s \<and>
   currentHoveredObject (removeInteractableObject obj s) =
     (if obj \<in> set (interactableObjects s) \<and> currentHoveredObject s = Some obj then None
      else currentHoveredObject s) \<and>
   interactionPrompt (removeInteractableObject obj s) =
     (if obj \<in> set (interactableObjects s) \<and> currentHoveredObject s = Some obj
      then map_option (\<lambda>p. p\<lparr>visible_class := False\<rparr>) (interactionPrompt s)
      else interactionPrompt s) \<and>
   interactableObjects (removeInteractableObject obj s) = remove1 obj (interactableObjects s)"
  by (auto simp: removeInteractableObject_def Let_def updateInteractionPrompt_def remove1_idem
      split: option.splits)

text \<open>
  At the example: removing the hovered entity A hides the prompt and keeps its text;
  removing entity B, or the unregistered twin of A (the field values of A, another
  identity), leaves the hover on A and the prompt visible, and the twin's removal leaves
  the list as it is.
\<close>

theorem removeInteractableObject_clears_hover_silently_witness:
  "interactionPrompt (removeInteractableObject entity_A hovering_A) =
     Some \<lparr> textContent = prompt_prefix @ ''first'', visible_class = False \<rparr> \<and>
   currentHoveredObject (removeInteractableObject entity_A hovering_A) = None \<and>
   interactableObjects (removeInteractableObject entity_A hovering_A) = [entity_B] \<and>
   currentHoveredObject (removeInteractableObject entity_B hovering_A) = Some entity_A \<and>
   interactionPrompt (removeInteractableObject entity_B hovering_A) =
     Some \<lparr> textContent = prompt_prefix @ ''first'', visible_class = True \<rparr> \<and>
   interactableObjects (removeInteractableObject entity_B hovering_A) = [entity_A] \<and>
   currentHoveredObject (removeInteractableObject twin_of_A hovering_A) = Some entity_A \<and>
   interactionPrompt (removeInteractableObject twin_of_A hovering_A) =
     Some \<lparr> textContent = prompt_prefix @ ''first'', visible_class = True \<rparr> \<and>
   interactableObjects (removeInteractableObject twin_of_A hovering_A) = [entity_A, entity_B]"
proof -
  have d: "entity_A \<noteq> entity_B" "twin_of_A \<noteq> entity_A" "twin_of_A \<noteq> entity_B"
    by (simp_all add: entity_A_def entity_B_def twin_of_A_def)
  have h: "interactableObjects hovering_A = [entity_A, entity_B]"
      "currentHoveredObject hovering_A = Some entity_A"
      "interactionPrompt hovering_A =
         Some \<lparr> textContent = prompt_prefix @ ''first'', visible_class = True \<rparr>"
    by (simp_all add: hovering_A_def)
  from removeInteractableObject_clears_hover_silently [of entity_A hovering_A]
    removeInteractableObject_clears_hover_silently [of entity_B hovering_A]
    removeInteractableObject_clears_hover_silently [of twin_of_A hovering_A]
  show ?thesis using d by (simp add: h)
qed

text \<open>
  C3 as stated fails: removing the hovered entity A, which has a hover-end callback, clears
  the hover state and calls nothing.
\<close>

theorem remove_hovered_fires_no_callback:
  "currentHoveredObject hovering_A = Some entity_A \<and>
   onHoverEnd entity_A = Some (Callback 12) \<and>
   calls (removeInteractableObject entity_A hovering_A) = [] \<and>
   currentHoveredObject (removeInteractableObject entity_A hovering_A) = None"
  by (simp add: removeInteractableObject_def Let_def updateInteractionPrompt_def
      hovering_A_def entity_A_def)

section \<open>Properties of the performance optimizer\<close>

subsection \<open>Frame-rate tiers\<close>

text \<open>
  C7. When a sample is taken (at least 1000 ms since the last one), the average is
  frames * 1000 / elapsed, and the level is high exactly when the average is at least 50,
  medium exactly when it is at least 30 and below 50, low exactly when it is below 30. So
  exactly 50 is high, 45 is medium and 29 is low.
\<close>

theorem fps_tier_classification:
  assumes "lastTime p = Num t0" and "frameCount p = Num k" and "1000 \<le> t - t0"
  shows "(let p' = updatePerformanceLevel (Num t) p; a = k * 1000 / (t - t0)
          in averageFPS p' = Num a \<and>
             (performanceLevel p' = High \<longleftrightarrow> 50 \<le> a) \<and>
             (performanceLevel p' = Medium \<longleftrightarrow> 30 \<le> a \<and> a < 50) \<and>
             (performanceLevel p' = Low \<longleftrightarrow> a < 30))"
  using assms by (simp add: updatePerformanceLevel_def Let_def)

theorem fps_tier_classification_witness:
  "performanceLevel (updatePerformanceLevel (Num 1000) (example_optimizer\<lparr>frameCount := Num 50\<rparr>)) = High \<and>
   performanceLevel (updatePerformanceLevel (Num 1000) (example_optimizer\<lparr>frameCount := Num 45\<rparr>)) = Medium \<and>
   performanceLevel (updatePerformanceLevel (Num 1000) (example_optimizer\<lparr>frameCount := Num 29\<rparr>)) = Low"
proof -
  have l: "\<And>k. lastTime (example_optimizer\<lparr>frameCount := Num k\<rparr>) = Num 0"
    by (simp add: example_optimizer_def)
  have f: "\<And>k. frameCount (example_optimizer\<lparr>frameCount := Num k\<rparr>) = Num k"
    by simp
  have d: "(1000::real) \<le> 1000 - 0" by simp
  from fps_tier_classification [OF l f d, of 50] fps_tier_classification [OF l f d, of 45]
    fps_tier_classification [OF l f d, of 29]
  show ?thesis by (simp add: Let_def)
qed

subsection \<open>Traversals as pointwise updates\<close>

lemma traverse_children:
  assumes "\<And>c h. c \<in> set cs \<Longrightarrow> traverse cb c h = fold cb (preorder c) h"
  shows "fold (traverse cb) cs h = fold cb (concat (map preorder cs)) h"
  using assms by (induction cs arbitrary: h) simp_all

lemma traverse_fold: "traverse cb t h = fold cb (preorder t) h"
proof (induction t arbitrary: h)
  case (Tree r cs)
  then show ?case by (simp add: traverse_children)
qed

lemma fold_pointwise:
  assumes "\<And>r h. cb r h = h(r := f (h r))" and "\<And>n. f (f n) = f n"
  shows "fold cb rs h = (\<lambda>r. if r \<in> set rs then f (h r) else h r)"
proof (induction rs arbitrary: h)
  case Nil
  then show ?case by simp
next
  case (Cons a rs)
  have "fold cb (a # rs) h = fold cb rs (cb a h)"
    by simp
  also have "\<dots> = (\<lambda>r. if r \<in> set rs then f (cb a h r) else cb a h r)"
    by (rule Cons.IH)
  also have "\<dots> = (\<lambda>r. if r \<in> set (a # rs) then f (h r) else h r)"
    by (auto simp: assms fun_eq_iff)
  finally show ?case .
qed

lemma cull_object_node: "cull_object F A r h = h(r := cull_node F A (h r))"
  by (auto simp: cull_object_def cull_node_def fun_eq_iff split: kind.splits option.splits)

lemma cull_node_idem: "cull_node F A (cull_node F A n) = cull_node F A n"
  by (simp add: cull_node_def split: kind.splits option.splits)

lemma mediumLOD_child_node: "mediumLOD_child r h = h(r := mediumLOD_node (h r))"
  by (auto simp: mediumLOD_child_def mediumLOD_node_def fun_eq_iff split: kind.splits)

lemma js_min_idem: "js_min (js_min a b) b = js_min a b"
  by (cases a; cases b) simp_all

lemma mediumLOD_node_idem: "mediumLOD_node (mediumLOD_node n) = mediumLOD_node n"
  by (simp add: mediumLOD_node_def js_min_idem split: kind.splits material.splits)

lemma highLOD_child_node: "highLOD_child cfg r h = h(r := highLOD_node cfg (h r))"
  by (auto simp: highLOD_child_def highLOD_node_def fun_eq_iff split: kind.splits)

lemma highLOD_node_idem: "highLOD_node cfg (highLOD_node cfg n) = highLOD_node cfg n"
  by (simp add: highLOD_node_def split: kind.splits material.splits)

lemma traverse_cull:
  "traverse (cull_object F A) t h = (\<lambda>r. if r \<in> set (preorder t) then cull_node F A (h r) else h r)"
  unfolding traverse_fold
  by (rule fold_pointwise [of "cull_object F A" "cull_node F A", OF cull_object_node cull_node_idem])

lemma applyMediumLOD_pointwise:
  "applyMediumLOD t h = (\<lambda>r. if r \<in> set (preorder t) then mediumLOD_node (h r) else h r)"
  unfolding applyMediumLOD_def traverse_fold
  by (rule fold_pointwise [of mediumLOD_child mediumLOD_node,
        OF mediumLOD_child_node mediumLOD_node_idem])

lemma applyHighLOD_pointwise:
  "applyHighLOD t cfg h = (\<lambda>r. if r \<in> set (preorder t) then highLOD_node cfg (h r) else h r)"
  unfolding applyHighLOD_def traverse_fold
  by (rule fold_pointwise [of "highLOD_child cfg" "highLOD_node cfg",
        OF highLOD_child_node highLOD_node_idem])

lemma lod_nodes_keep [simp]:
  "boundingSphere_of (mediumLOD_node n) = boundingSphere_of n"
  "matrixWorld (mediumLOD_node n) = matrixWorld n"
  "boundingSphere_of (highLOD_node cfg n) = boundingSphere_of n"
  "matrixWorld (highLOD_node cfg n) = matrixWorld n"
  "boundingSphere_of (n\<lparr>visible := b\<rparr>) = boundingSphere_of n"
  by (simp_all add: mediumLOD_node_def highLOD_node_def boundingSphere_of_def split: kind.splits)

lemma lod_entry_keeps:
  "boundingSphere_of (lod_entry cam h e r) = boundingSphere_of (h r) \<and>
   matrixWorld (lod_entry cam h e r) = matrixWorld (h r)"
  by (simp add: lod_entry_def Let_def applyMediumLOD_pointwise applyHighLOD_pointwise)

lemma foldl_lod_entry_keeps:
  "boundingSphere_of (foldl (lod_entry cam) h es r) = boundingSphere_of (h r) \<and>
   matrixWorld (foldl (lod_entry cam) h es r) = matrixWorld (h r)"
  by (induction es arbitrary: h) (simp_all add: lod_entry_keeps)

lemma updateLOD_keeps:
  "boundingSphere_of (scene_objects (updateLOD p) r) = boundingSphere_of (scene_objects p r) \<and>
   matrixWorld (scene_objects (updateLOD p) r) = matrixWorld (scene_objects p r) \<and>
   scene (updateLOD p) = scene p \<and> camera (updateLOD p) = camera p \<and>
   optimizationSettings (updateLOD p) = optimizationSettings p"
  by (simp add: updateLOD_def foldl_lod_entry_keeps)

lemma visible_cull_node:
  "visible (cull_node F A n) =
     (case boundingSphere_of n of Some bs \<Rightarrow> F (A bs (matrixWorld n)) | None \<Rightarrow> visible n)"
  by (simp add: cull_node_def boundingSphere_of_def split: kind.splits option.splits)

lemma sqrt_9: "sqrt 9 = 3"
  using real_sqrt_abs [of 3] by simp

lemma example_after_lod:
  "scene_objects (updateLOD example_optimizer) 7 =
     near_mesh\<lparr> kind := Mesh (MeshPhongMaterial (Color (Num 0) (Num 0) (Num 0)) (Num 100))
                              (Some (Sphere (Vector3 (Num 0) (Num 0) (Num 0)) (Num 1))) \<rparr>"
  by (simp add: updateLOD_def example_optimizer_def lod_entry_def Let_def near_mesh_def
      matte_config_def sqrt_9 applyHighLOD_def highLOD_child_def)

subsection \<open>Level of detail, then frustum culling\<close>

text \<open>
  C9. The per-frame update is the LOD pass followed by the frustum-culling pass. With
  culling enabled and a perspective camera, every object of the scene that is a mesh with
  a bounding sphere ends the frame with \<open>visible\<close> equal to the frustum test of its sphere
  in world space, whatever the LOD pass set; every other object of the scene (no bounding
  sphere, or not a mesh) keeps the visibility the LOD pass left. The model has no error
  result: an absent sphere is skipped by the guard.
\<close>

theorem frustum_culling_overrides_lod:
  assumes "enableFrustumCulling (optimizationSettings p)"
    and "isPerspectiveCamera (camera p)"
    and "r \<in> set (preorder (scene p))"
  shows "(let n0 = scene_objects p r;
              n1 = scene_objects (updateLOD p) r;
              n2 = scene_objects (PerformanceOptimizer_update F A p) r
          in PerformanceOptimizer_update F A p = updateFrustumCulling F A (updateLOD p) \<and>
             (case boundingSphere_of n0 of
                Some bs \<Rightarrow> visible n2 = F (A bs (matrixWorld n0))
              | None \<Rightarrow> visible n2 = visible n1))"
  using assms updateLOD_keeps [of p r]
  by (simp add: PerformanceOptimizer_update_def updateFrustumCulling_def traverse_cull
      visible_cull_node Let_def split: option.splits)

theorem frustum_culling_overrides_lod_witness:
  "visible (scene_objects (updateLOD example_optimizer) 7) \<and>
   \<not> visible (scene_objects (PerformanceOptimizer_update (\<lambda>s. False) (\<lambda>s m. s) example_optimizer) 7) \<and>
   visible (scene_objects (PerformanceOptimizer_update (\<lambda>s. False) (\<lambda>s m. s) example_optimizer) 8)"
proof -
  have e: "enableFrustumCulling (optimizationSettings example_optimizer)"
    and c: "isPerspectiveCamera (camera example_optimizer)"
    and r1: "7 \<in> set (preorder (scene example_optimizer))"
    and r2: "8 \<in> set (preorder (scene example_optimizer))"
    by (simp_all add: example_optimizer_def)
  have b1: "boundingSphere_of (scene_objects example_optimizer 7) =
      Some (Sphere (Vector3 (Num 0) (Num 0) (Num 0)) (Num 1))"
    by (simp add: example_optimizer_def near_mesh_def boundingSphere_of_def)
  have b2: "boundingSphere_of (scene_objects example_optimizer 8) = None"
    by (simp add: example_optimizer_def example_object_def boundingSphere_of_def)
  have v1: "visible (scene_objects (updateLOD example_optimizer) 7)"
    by (simp add: example_after_lod near_mesh_def)
  have v2: "visible (scene_objects (updateLOD example_optimizer) 8)"
    by (simp add: updateLOD_def example_optimizer_def lod_entry_def Let_def near_mesh_def
      matte_config_def sqrt_9 applyHighLOD_def highLOD_child_def example_object_def)
  from frustum_culling_overrides_lod [OF e c r1, of "\<lambda>s. False" "\<lambda>s m. s",
      unfolded Let_def, THEN conjunct2]
    frustum_culling_overrides_lod [OF e c r2, of "\<lambda>s. False" "\<lambda>s m. s",
      unfolded Let_def, THEN conjunct2]
  show ?thesis by (simp add: b1 b2 v1 v2)
qed

subsection \<open>The three outcomes of the LOD pass\<close>

text \<open>
  For one entry, by the distance from the camera to the object: beyond the far distance
  the object is hidden; beyond the medium distance it is shown and every mesh below it gets
  its shininess capped at 50 and casts no shadow; otherwise it is shown and every mesh
  below it gets the shininess \<^verbatim>\<open>originalShininess || 100\<close> and the entry's shadow flag. Doing
  the same entry again changes nothing.
\<close>

lemma root_in_preorder: "root t \<in> set (preorder t)"
  by (cases t) simp

lemma lod_entry_outcomes:
  "lod_entry cam h (obj, cfg) =
     (if js_gt (distanceTo cam (position (h (root obj)))) (farDistance cfg) then
        h(root obj := (h (root obj))\<lparr>visible := False\<rparr>)
      else if js_gt (distanceTo cam (position (h (root obj)))) (mediumDistance cfg) then
        (\<lambda>r. if r \<in> set (preorder obj)
             then mediumLOD_node ((h(root obj := (h (root obj))\<lparr>visible := True\<rparr>)) r)
             else (h(root obj := (h (root obj))\<lparr>visible := True\<rparr>)) r)
      else
        (\<lambda>r. if r \<in> set (preorder obj)
             then highLOD_node cfg ((h(root obj := (h (root obj))\<lparr>visible := True\<rparr>)) r)
             else (h(root obj := (h (root obj))\<lparr>visible := True\<rparr>)) r))"
  by (simp add: lod_entry_def Let_def applyMediumLOD_pointwise applyHighLOD_pointwise)

lemma lod_nodes_keep_position [simp]:
  "position (mediumLOD_node n) = position n"
  "position (highLOD_node cfg n) = position n"
  "visible (mediumLOD_node n) = visible n"
  "visible (highLOD_node cfg n) = visible n"
  by (simp_all add: mediumLOD_node_def highLOD_node_def split: kind.splits)

lemma visible_update_same: "visible n = b \<Longrightarrow> n\<lparr>visible := b\<rparr> = n"
  by (cases n) simp

lemma lod_entry_idem: "lod_entry cam (lod_entry cam h e) e = lod_entry cam h e"
proof -
  obtain obj cfg where e: "e = (obj, cfg)" by (cases e)
  let ?h1 = "lod_entry cam h (obj, cfg)"
  let ?far = "js_gt (distanceTo cam (position (h (root obj)))) (farDistance cfg)"
  let ?med = "js_gt (distanceTo cam (position (h (root obj)))) (mediumDistance cfg)"
  have p: "position (?h1 (root obj)) = position (h (root obj))"
    by (simp add: lod_entry_outcomes root_in_preorder)
  note again = lod_entry_outcomes [of cam ?h1 obj cfg, unfolded p]
  have v: "\<not> ?far \<Longrightarrow> ?h1(root obj := (?h1 (root obj))\<lparr>visible := True\<rparr>) = ?h1"
    by (simp add: lod_entry_outcomes root_in_preorder visible_update_same fun_eq_iff)
  have "lod_entry cam ?h1 (obj, cfg) = ?h1"
  proof (cases ?far)
    case True
    from again True
    have "lod_entry cam ?h1 (obj, cfg) = ?h1(root obj := (?h1 (root obj))\<lparr>visible := False\<rparr>)"
      by simp
    also have "\<dots> = ?h1"
      by (simp add: lod_entry_outcomes True fun_eq_iff)
    finally show ?thesis .
  next
    case False
    show ?thesis
    proof (cases ?med)
      case True
      from again False True
      have "lod_entry cam ?h1 (obj, cfg) =
          (\<lambda>r. if r \<in> set (preorder obj) then mediumLOD_node (?h1 r) else ?h1 r)"
        by (simp only: v [OF False] if_True if_False)
      also have "\<dots> = ?h1"
        by (simp add: lod_entry_outcomes False True fun_eq_iff mediumLOD_node_idem)
      finally show ?thesis .
    next
      case nmed: False
      from again False nmed
      have "lod_entry cam ?h1 (obj, cfg) =
          (\<lambda>r. if r \<in> set (preorder obj) then highLOD_node cfg (?h1 r) else ?h1 r)"
        by (simp only: v [OF False] if_True if_False)
      also have "\<dots> = ?h1"
        by (simp add: lod_entry_outcomes False nmed fun_eq_iff highLOD_node_idem)
      finally show ?thesis .
    qed
  qed
  then show ?thesis by (simp add: e)
qed

subsection \<open>Restoring the shininess at close range\<close>

text \<open>
  C8 at an entry whose stored baseline shininess is 0, for a mesh of shininess 0 within the
  medium distance of the camera: the LOD pass leaves the mesh with shininess 100, because
  \<^verbatim>\<open>config.originalShininess || 100\<close> takes the default for a stored 0.
\<close>

theorem highLOD_zero_shininess:
  "originalShininess matte_config = Some (Num 0) \<and>
   js_le (distanceTo (camera_position (camera example_optimizer))
            (position (scene_objects example_optimizer 7)))
         (mediumDistance matte_config) \<and>
   shininess_of (scene_objects example_optimizer 7) = Some (Num 0) \<and>
   shininess_of (scene_objects (updateLOD example_optimizer) 7) = Some (Num 100)"
proof -
  have "shininess_of (scene_objects (updateLOD example_optimizer) 7) = Some (Num 100)"
    by (simp add: example_after_lod shininess_of_def)
  moreover have "shininess_of (scene_objects example_optimizer 7) = Some (Num 0)"
    by (simp add: example_optimizer_def near_mesh_def shininess_of_def)
  moreover have "js_le (distanceTo (camera_position (camera example_optimizer))
            (position (scene_objects example_optimizer 7))) (mediumDistance matte_config)"
    by (simp add: example_optimizer_def near_mesh_def matte_config_def sqrt_9)
  moreover have "originalShininess matte_config = Some (Num 0)"
    by (simp add: matte_config_def)
  ultimately show ?thesis by simp
qed

end
